theory Spec2Isabelle
  imports Main
begin

section \<open>Python values used by the log-sync pipeline\<close>

text \<open>
  Strings are lists of 8-bit characters: the texts the program builds here (headers, file
  names, decimal numbers) are ASCII, and \<open>str.encode()\<close> is the identity on them.
  Exceptions are values of the type \<open>error\<close>; a function that can raise returns
  \<open>error + 'a\<close> with \<open>Inl\<close> for the exception.
\<close>

datatype error =
    ValueError string
  | KeyError string
  | BrokenPipeError string
  | OSError
  | JSONDecodeError
  | OtherError string

subsection \<open>\<open>str(n)\<close> and \<open>%0kd\<close> for integers\<close>

definition digit_char :: "nat \<Rightarrow> char" where
  "digit_char d = char_of (48 + d)"

fun str_nat :: "nat \<Rightarrow> string" where
  "str_nat n = (if n < 10 then [digit_char n] else str_nat (n div 10) @ [digit_char (n mod 10)])"

declare str_nat.simps [simp del]

definition str_int :: "int \<Rightarrow> string" where
  "str_int i = (if i < 0 then CHR ''-'' # str_nat (nat (- i)) else str_nat (nat i))"

text \<open>\<open>"%0kd" % n\<close> for a non-negative \<open>n\<close>: zeros on the left up to width \<open>k\<close>.\<close>

definition zpad :: "nat \<Rightarrow> nat \<Rightarrow> string" where
  "zpad k n = replicate (k - length (str_nat n)) CHR ''0'' @ str_nat n"

subsection \<open>\<open>str.upper()\<close> on ASCII text\<close>

definition upper_char :: "char \<Rightarrow> char" where
  "upper_char c =
     (let n = (of_char c :: nat) in if 97 \<le> n \<and> n \<le> 122 then char_of (n - 32) else c)"

definition upper :: "string \<Rightarrow> string" where
  "upper s = map upper_char s"

text \<open>\<open>sep.join(parts)\<close>.\<close>

fun join :: "string \<Rightarrow> string list \<Rightarrow> string" where
  "join sep [] = []"
| "join sep [x] = x"
| "join sep (x # y # ys) = x @ sep @ join sep (y # ys)"

section \<open>The syslog header (\<open>duologsync/consumer/syslog.py\<close>)\<close>

text \<open>
  A \<open>datetime\<close> object: the civil fields and the UTC offset of its \<open>tzinfo\<close> in
  seconds (\<open>None\<close> for a naive value, \<open>Some 0\<close> for \<open>timezone.utc\<close>). The
  datetime type keeps \<open>1 \<le> month \<le> 12\<close> and \<open>microsecond < 1000000\<close>.
\<close>

record datetime =
  year :: nat
  month :: nat
  day :: nat
  hour :: nat
  minute :: nat
  second :: nat
  microsecond :: nat
  utcoffset :: "int option"

text \<open>The offset suffix that \<open>isoformat\<close> prints: nothing for a naive value, else
  \<open>+HH:MM\<close>, with \<open>:SS\<close> when the offset has seconds.\<close>

definition format_offset :: "int option \<Rightarrow> string" where
  "format_offset off =
     (case off of
        None \<Rightarrow> []
      | Some s \<Rightarrow>
          (let a = nat \<bar>s\<bar>; hh = a div 3600; mm = (a mod 3600) div 60; ss = a mod 60
           in (if s < 0 then ''-'' else ''+'') @ zpad 2 hh @ '':'' @ zpad 2 mm
              @ (if ss \<noteq> 0 then '':'' @ zpad 2 ss else [])))"

text \<open>\<open>timestamp.isoformat(sep='T', timespec='milliseconds')\<close>.\<close>

definition isoformat_ms :: "datetime \<Rightarrow> string" where
  "isoformat_ms t =
     zpad 4 (year t) @ ''-'' @ zpad 2 (month t) @ ''-'' @ zpad 2 (day t) @ ''T''
     @ zpad 2 (hour t) @ '':'' @ zpad 2 (minute t) @ '':'' @ zpad 2 (second t)
     @ ''.'' @ zpad 3 (microsecond t div 1000) @ format_offset (utcoffset t)"

text \<open>\<open>%b\<close> of \<open>strftime\<close> in the C locale.\<close>

definition month_abbr :: "nat \<Rightarrow> string" where
  "month_abbr m =
     (if m = 1 then ''Jan'' else if m = 2 then ''Feb'' else if m = 3 then ''Mar''
      else if m = 4 then ''Apr'' else if m = 5 then ''May'' else if m = 6 then ''Jun''
      else if m = 7 then ''Jul'' else if m = 8 then ''Aug'' else if m = 9 then ''Sep''
      else if m = 10 then ''Oct'' else if m = 11 then ''Nov'' else if m = 12 then ''Dec''
      else ''???'')"

text \<open>\<open>timestamp.strftime("%b %d %H:%M:%S")\<close>.\<close>

definition strftime_bdHMS :: "datetime \<Rightarrow> string" where
  "strftime_bdHMS t =
     month_abbr (month t) @ '' '' @ zpad 2 (day t) @ '' '' @ zpad 2 (hour t) @ '':''
     @ zpad 2 (minute t) @ '':'' @ zpad 2 (second t)"

definition DEFAULT_PRIORITY :: int where
  "DEFAULT_PRIORITY = 38"

definition SYSLOG_VERSION :: int where
  "SYSLOG_VERSION = 1"


text \<open>
  \<open>get_syslog_header(format, timestamp, priority)\<close> with all three arguments given.
  The first parameter is the value of \<open>socket.gethostname()\<close> at the call.
\<close>

definition get_syslog_header :: "string \<Rightarrow> string \<Rightarrow> datetime \<Rightarrow> int \<Rightarrow> error + string" where
  "get_syslog_header gethostname format timestamp priority =
     (let syslog_pri = ''<'' @ str_int priority @ ''>'' in
      if upper format = ''RFC5424'' then
        (let syslog_pri_version = syslog_pri @ str_int SYSLOG_VERSION;
             syslog_date_time = isoformat_ms timestamp;
             first_part = join '' '' [syslog_pri_version, syslog_date_time]
         in Inr (join '' '' [first_part, gethostname]))
      else if upper format = ''RFC3164'' then
        (let syslog_date_time = strftime_bdHMS timestamp;
             first_part = join [] [syslog_pri, syslog_date_time]
         in Inr (join '' '' [first_part, gethostname]))
      else Inl (ValueError (format @ '' is not a supported syslog format'')))"




section \<open>JSON text of an offset\<close>

text \<open>
  An Offset is a JSON-compatible value. The model covers the scalars \<open>null\<close>, booleans
  and integers, which is what a numeric offset needs; strings, floats, arrays and objects
  are not values of this type, and \<open>json_loads\<close> answers \<open>JSONDecodeError\<close> on a text
  that is none of the three modelled forms. The theorems below use that verdict only on
  the empty text.
\<close>

datatype jval = JNull | JBool bool | JInt int

text \<open>\<open>json.dumps(v)\<close>.\<close>

definition json_dumps :: "jval \<Rightarrow> string" where
  "json_dumps v =
     (case v of
        JNull \<Rightarrow> ''null''
      | JBool b \<Rightarrow> (if b then ''true'' else ''false'')
      | JInt i \<Rightarrow> str_int i)"

text \<open>JSON whitespace: space, tab, line feed, carriage return.\<close>

definition is_ws :: "char \<Rightarrow> bool" where
  "is_ws c = (c = CHR '' '' \<or> c = CHR 0x09 \<or> c = CHR 0x0A \<or> c = CHR 0x0D)"

definition strip_ws :: "string \<Rightarrow> string" where
  "strip_ws s = rev (dropWhile is_ws (rev (dropWhile is_ws s)))"

definition is_digit :: "char \<Rightarrow> bool" where
  "is_digit c = (let n = (of_char c :: nat) in 48 \<le> n \<and> n \<le> 57)"

definition digits_val :: "string \<Rightarrow> nat" where
  "digits_val ds = foldl (\<lambda>a c. 10 * a + (of_char c - 48)) 0 ds"

text \<open>The integer part of a JSON number: \<open>0\<close>, or a digit string without a leading zero.\<close>

definition int_literal :: "string \<Rightarrow> bool" where
  "int_literal ds =
     (case ds of
        [] \<Rightarrow> False
      | c # cs \<Rightarrow> (if c = CHR ''0'' then cs = [] else is_digit c \<and> list_all is_digit cs))"

text \<open>\<open>json.loads(s)\<close> on the modelled fragment: whitespace around one value.\<close>

definition json_loads :: "string \<Rightarrow> error + jval" where
  "json_loads s =
     (let t = strip_ws s in
      if t = ''null'' then Inr JNull
      else if t = ''true'' then Inr (JBool True)
      else if t = ''false'' then Inr (JBool False)
      else if t \<noteq> [] \<and> hd t = CHR ''-'' then
        (if int_literal (tl t) then Inr (JInt (- int (digits_val (tl t))))
         else Inl JSONDecodeError)
      else if int_literal t then Inr (JInt (int (digits_val t)))
      else Inl JSONDecodeError)"

section \<open>The process around the code: files, the Program singleton, the Config accessor\<close>

text \<open>
  The file system as the program sees it through \<open>open\<close>: \<open>files\<close> maps the path of
  each file that can be opened for reading to its text; a path outside its domain makes
  \<open>open(path)\<close> raise \<open>OSError\<close> (no such file, a directory, no permission).
  \<open>unwritable\<close> holds of the paths at which \<open>open(path, 'w')\<close> raises \<open>OSError\<close>
  (no such directory, no permission). Paths are POSIX paths without NUL characters.
\<close>

record filesystem =
  files :: "string \<rightharpoonup> string"
  unwritable :: "string \<Rightarrow> bool"

text \<open>\<open>open(path).read()\<close>.\<close>

definition open_read :: "filesystem \<Rightarrow> string \<Rightarrow> error + string" where
  "open_read f path = (case files f path of None \<Rightarrow> Inl OSError | Some text \<Rightarrow> Inr text)"

text \<open>\<open>open(path, 'w')\<close>: the file is created or truncated.\<close>

definition open_write :: "filesystem \<Rightarrow> string \<Rightarrow> error + filesystem" where
  "open_write f path =
     (if unwritable f path then Inl OSError else Inr (f\<lparr>files := (files f)(path \<mapsto> [])\<rparr>))"

text \<open>\<open>file.write(text)\<close> followed by \<open>file.close()\<close> on a file opened for writing.\<close>

definition write_close :: "filesystem \<Rightarrow> string \<Rightarrow> string \<Rightarrow> filesystem" where
  "write_close f path text =
     f\<lparr>files := (files f)(path \<mapsto> (case files f path of None \<Rightarrow> text | Some old \<Rightarrow> old @ text))\<rparr>"

text \<open>\<open>os.path.join(a, b)\<close> of \<open>posixpath\<close>.\<close>

definition path_join :: "string \<Rightarrow> string \<Rightarrow> string" where
  "path_join a b =
     (if b \<noteq> [] \<and> hd b = CHR ''/'' then b
      else if a = [] \<or> last a = CHR ''/'' then a @ b
      else a @ ''/'' @ b)"

datatype level = INFO | WARNING

text \<open>A record of a log stream: a dict from field names to values, in insertion order.\<close>

datatype pyval = PNone | PBool bool | PInt int | PStr string

type_synonym log = "(string \<times> pyval) list"

text \<open>\<open>d[k] = v\<close>: replace the value of an existing key in place, else append.\<close>

fun dict_set :: "log \<Rightarrow> string \<Rightarrow> pyval \<Rightarrow> log" where
  "dict_set [] k v = [(k, v)]"
| "dict_set (p # ps) k v = (if fst p = k then (k, v) # ps else p # dict_set ps k v)"

text \<open>\<open>d[k]\<close>.\<close>

definition dict_get :: "log \<Rightarrow> string \<Rightarrow> error + pyval" where
  "dict_get d k = (case map_of d k of None \<Rightarrow> Inl (KeyError k) | Some v \<Rightarrow> Inr v)"

text \<open>
  The state of the process that the Consumer and the checkpoint functions act on.
  \<open>running\<close> is the flag of the Program singleton, \<open>shutdown_reasons\<close> the reasons passed
  to \<open>Program.initiate_shutdown\<close>, \<open>log_lines\<close> what was passed to \<open>Program.log\<close> (the
  level is \<open>None\<close> where the call gives none). \<open>format_calls\<close> lists the records handed
  to \<open>format_log\<close>, \<open>write_calls\<close> the payloads handed to \<open>Writer.write\<close>,
  \<open>delivered\<close> those of them whose write returned normally, and \<open>checkpoint_calls\<close> the
  arguments of every call of \<open>update_log_checkpoint\<close>; these four only observe the run.
\<close>

record world =
  running :: bool
  shutdown_reasons :: "string list"
  log_lines :: "(string \<times> level option) list"
  format_calls :: "log list"
  write_calls :: "string list"
  delivered :: "string list"
  checkpoint_calls :: "(string \<times> jval \<times> string option) list"
  fs :: filesystem

text \<open>
  Modelled from the spec: \<open>duologsync/program.py\<close> is not among the sources. The
  Coordinator contract is \<open>isRunning() -> bool\<close>, \<open>requestShutdown(reason)\<close>, which sets the
  process-wide flag, and \<open>log(message, level)\<close>.
\<close>

definition is_running :: "world \<Rightarrow> bool" where
  "is_running w = running w"

definition initiate_shutdown :: "string \<Rightarrow> world \<Rightarrow> world" where
  "initiate_shutdown reason w =
     w\<lparr>running := False, shutdown_reasons := shutdown_reasons w @ [reason]\<rparr>"

definition program_log :: "string \<Rightarrow> level option \<Rightarrow> world \<Rightarrow> world" where
  "program_log msg lvl w = w\<lparr>log_lines := log_lines w @ [(msg, lvl)]\<rparr>"

text \<open>
  The values the code reads from \<open>duologsync.config.Config\<close>, which is not among the
  sources: the constants \<open>Config.CEF\<close>, \<open>Config.JSON\<close>, \<open>Config.AUTH\<close> and the results
  of \<open>get_syslog_enabled\<close>, \<open>get_syslog_format\<close>, \<open>get_checkpoint_dir\<close> and
  \<open>get_api_offset\<close>. They are parameters of the model.
\<close>

record config =
  CEF :: string
  JSON :: string
  AUTH :: string
  syslog_enabled :: bool
  syslog_format :: string
  checkpoint_dir :: string
  api_offset :: int

text \<open>Truth value of an optional string: \<open>None\<close> and \<open>''\<close> are false.\<close>

definition truthy :: "string option \<Rightarrow> string option" where
  "truthy x = (case x of None \<Rightarrow> None | Some s \<Rightarrow> (if s = [] then None else Some s))"

section \<open>Reading a checkpoint (\<open>duologsync/util.py\<close>)\<close>

text \<open>The path expression inside \<open>get_log_offset\<close>.\<close>

definition read_checkpoint_path :: "string \<Rightarrow> string \<Rightarrow> string option \<Rightarrow> string" where
  "read_checkpoint_path checkpoint_directory log_type child_account_id =
     (case truthy child_account_id of
        Some cid \<Rightarrow>
          path_join checkpoint_directory (log_type @ ''_checkpoint_data_'' @ cid @ ''.txt'')
      | None \<Rightarrow> path_join checkpoint_directory (log_type @ ''_checkpoint_data.txt''))"

text \<open>The body of the \<open>try\<close> in \<open>get_log_offset\<close>: open, read, decode.\<close>

definition read_checkpoint_file :: "filesystem \<Rightarrow> string \<Rightarrow> error + jval" where
  "read_checkpoint_file f checkpoint_file_path =
     (case open_read f checkpoint_file_path of
        Inl e \<Rightarrow> Inl e
      | Inr text \<Rightarrow> json_loads text)"

text \<open>
  \<open>get_log_offset(log_type, recover_log_offset, checkpoint_directory, child_account_id)\<close>.
  Only \<open>OSError\<close> is caught. The second half of the message is not an f-string in the
  source, so the braces are logged as they are, and the call gives no level.
\<close>

definition get_log_offset ::
  "config \<Rightarrow> string \<Rightarrow> bool \<Rightarrow> string \<Rightarrow> string option \<Rightarrow> world \<Rightarrow> (error + jval) \<times> world" where
  "get_log_offset cfg log_type recover_log_offset checkpoint_directory child_account_id w =
     (let milliseconds_per_second = 1000;
          log_offset = api_offset cfg;
          log_offset =
            (if log_type = AUTH cfg then log_offset * milliseconds_per_second else log_offset)
      in if recover_log_offset then
           (let checkpoint_file_path =
                  read_checkpoint_path checkpoint_directory log_type child_account_id
            in case read_checkpoint_file (fs w) checkpoint_file_path of
                 Inl OSError \<Rightarrow>
                   (Inr (JInt log_offset),
                    program_log (''Could not read checkpoint file for '' @ log_type
                      @ '' logs, consuming logs from {log_offset} timestamp'') None w)
               | Inl e \<Rightarrow> (Inl e, w)
               | Inr v \<Rightarrow> (Inr v, w))
         else (Inr (JInt log_offset), w))"

section \<open>The Consumer (\<open>duologsync/consumer/consumer.py\<close>)\<close>

record consumer =
  keys_to_labels :: "(string \<times> string) list"
  log_format :: string
  log_type :: string
  log_offset :: "jval option"
  child_account_id :: "string option"

text \<open>\<open>Consumer(log_format, log_queue, writer, child_account_id)\<close>; the queue and the
  writer are part of the surroundings below.\<close>

definition new_consumer :: "string \<Rightarrow> string option \<Rightarrow> consumer" where
  "new_consumer fmt cid =
     \<lparr>keys_to_labels = [], log_format = fmt, log_type = ''default'', log_offset = None,
      child_account_id = cid\<rparr>"

text \<open>
  What the Consumer calls outside this repository's sources: the structured-event encoder
  \<open>log_to_cef\<close>, \<open>json.dumps\<close> of a record, \<open>datetime.fromtimestamp(x, tz=timezone.utc)\<close>,
  \<open>socket.gethostname()\<close>, \<open>Producer.get_log_offset\<close>, and the shared Writer.
  \<open>writer_write n payload\<close> is the outcome of the call of \<open>Writer.write(payload)\<close>
  that \<open>n\<close> calls have preceded: \<open>None\<close> when it returns, else the exception.
\<close>

record externals =
  log_to_cef :: "log \<Rightarrow> (string \<times> string) list \<Rightarrow> error + string"
  json_dumps_log :: "log \<Rightarrow> string"
  fromtimestamp_utc :: "pyval \<Rightarrow> error + datetime"
  gethostname :: string
  producer_get_log_offset :: "log option \<Rightarrow> jval"
  writer_write :: "nat \<Rightarrow> string \<Rightarrow> error option"

text \<open>The path expression inside \<open>update_log_checkpoint\<close>.\<close>

definition write_checkpoint_path :: "config \<Rightarrow> string \<Rightarrow> string option \<Rightarrow> string" where
  "write_checkpoint_path cfg log_type' child_account_id' =
     (case truthy child_account_id' of
        Some cid \<Rightarrow>
          path_join (checkpoint_dir cfg) (log_type' @ ''_checkpoint_data_'' @ cid @ ''.txt'')
      | None \<Rightarrow> path_join (checkpoint_dir cfg) (log_type' @ ''_checkpoint_data.txt''))"

text \<open>
  \<open>Consumer.update_log_checkpoint(log_type, log_offset, child_account_id)\<close>. The result
  is the exception that leaves the call, if any.
\<close>

definition update_log_checkpoint ::
  "config \<Rightarrow> string \<Rightarrow> jval \<Rightarrow> string option \<Rightarrow> world \<Rightarrow> error option \<times> world" where
  "update_log_checkpoint cfg log_type' log_offset' child_account_id' w =
     (let w1 = program_log
                 (log_type' @ '' consumer: saving latest log offset to a checkpointing file'')
                 (Some INFO) w;
          w2 = w1\<lparr>checkpoint_calls :=
                    checkpoint_calls w1 @ [(log_type', log_offset', child_account_id')]\<rparr>;
          checkpoint_filename = write_checkpoint_path cfg log_type' child_account_id'
      in case open_write (fs w2) checkpoint_filename of
           Inl e \<Rightarrow> (Some e, w2)
         | Inr f \<Rightarrow>
             (None,
              w2\<lparr>fs := write_close f checkpoint_filename (json_dumps log_offset' @ [CHR 0x0A])\<rparr>))"

text \<open>
  \<open>Consumer.format_log(log)\<close>. \<open>get_syslog_header\<close> is called without a priority, so it
  takes the default, which is the constant 38.
\<close>

definition format_log :: "config \<Rightarrow> externals \<Rightarrow> consumer \<Rightarrow> log \<Rightarrow> error + string" where
  "format_log cfg ext c log =
     (if log_format c = CEF cfg then
        (case log_to_cef ext log (keys_to_labels c) of
           Inl e \<Rightarrow> Inl e
         | Inr formatted_log \<Rightarrow> Inr (formatted_log @ [CHR 0x0A]))
      else if log_format c = JSON cfg then
        (let formatted_log = json_dumps_log ext log in
         if syslog_enabled cfg then
           (case dict_get log ''timestamp'' of
              Inl e \<Rightarrow> Inl e
            | Inr ts \<Rightarrow>
                (case fromtimestamp_utc ext ts of
                   Inl e \<Rightarrow> Inl e
                 | Inr log_timestamp \<Rightarrow>
                     (case get_syslog_header (gethostname ext) (syslog_format cfg)
                             log_timestamp DEFAULT_PRIORITY of
                        Inl e \<Rightarrow> Inl e
                      | Inr syslog_header \<Rightarrow>
                          Inr (join '' '' [syslog_header, formatted_log] @ [CHR 0x0A]))))
         else Inr (formatted_log @ [CHR 0x0A]))
      else Inl (ValueError (log_format c @ '' is not a supported log format'')))"

text \<open>\<open>if self.child_account_id: log['child_account_id'] = self.child_account_id\<close>.\<close>

definition stamp :: "consumer \<Rightarrow> log \<Rightarrow> log" where
  "stamp c log =
     (case truthy (child_account_id c) of
        Some cid \<Rightarrow> dict_set log ''child_account_id'' (PStr cid)
      | None \<Rightarrow> log)"

text \<open>\<open>await self.writer.write(payload)\<close>.\<close>

definition writer_call :: "externals \<Rightarrow> string \<Rightarrow> world \<Rightarrow> error option \<times> world" where
  "writer_call ext payload w =
     (let w1 = w\<lparr>write_calls := write_calls w @ [payload]\<rparr> in
      case writer_write ext (length (write_calls w)) payload of
        Some e \<Rightarrow> (Some e, w1)
      | None \<Rightarrow> (None, w1\<lparr>delivered := delivered w1 @ [payload]\<rparr>))"

text \<open>
  The \<open>for log in logs\<close> loop of \<open>consume\<close>, from the value of \<open>last_log_written\<close> at its
  entry. The result is the exception that ended the loop (\<open>None\<close> when the loop ran to its
  end), \<open>last_log_written\<close> and the state.
\<close>

fun write_logs ::
  "config \<Rightarrow> externals \<Rightarrow> consumer \<Rightarrow> log list \<Rightarrow> log option \<Rightarrow> world
     \<Rightarrow> error option \<times> log option \<times> world" where
  "write_logs cfg ext c [] last_log_written w = (None, last_log_written, w)"
| "write_logs cfg ext c (l # logs) last_log_written w =
     (let log = stamp c l;
          w1 = w\<lparr>format_calls := format_calls w @ [log]\<rparr>
      in case format_log cfg ext c log of
           Inl e \<Rightarrow> (Some e, last_log_written, w1)
         | Inr payload \<Rightarrow>
             (case writer_call ext payload w1 of
                (Some e, w2) \<Rightarrow> (Some e, last_log_written, w2)
              | (None, w2) \<Rightarrow> write_logs cfg ext c logs (Some log) w2))"

text \<open>
  The \<open>try\<close> / \<open>except BrokenPipeError\<close> / \<open>finally\<close> statement that \<open>consume\<close> runs on a
  non-empty batch. The result is the exception that leaves the statement, if any: one
  raised in the \<open>try\<close> other than \<open>BrokenPipeError\<close> is raised again after the
  \<open>finally\<close> block, and one raised by the \<open>finally\<close> block replaces it.
\<close>

definition process_batch ::
  "config \<Rightarrow> externals \<Rightarrow> consumer \<Rightarrow> log list \<Rightarrow> world \<Rightarrow> error option \<times> consumer \<times> world" where
  "process_batch cfg ext c logs w =
     (let w1 = program_log (log_type c @ '' consumer: writing logs'') (Some INFO) w;
          (raised, last_log_written, w2) = write_logs cfg ext c logs None w1;
          successful_write = (raised = None);
          (pending, w3) =
            (case raised of
               Some (BrokenPipeError shutdown_reason) \<Rightarrow>
                 (None,
                  program_log ''DuoLogSync: connection to server was reset'' (Some WARNING)
                    (initiate_shutdown shutdown_reason w2))
             | _ \<Rightarrow> (raised, w2));
          w4 = (if successful_write
                then program_log (log_type c @ '' consumer: successfully wrote all logs'')
                       (Some INFO) w3
                else program_log (log_type c @ '' consumer: failed to write some logs'')
                       (Some WARNING) w3);
          offset = producer_get_log_offset ext last_log_written;
          c' = c\<lparr>log_offset := Some offset\<rparr>
      in case update_log_checkpoint cfg (log_type c') offset (child_account_id c') w4 of
           (Some e, w5) \<Rightarrow> (Some e, c', w5)
         | (None, w5) \<Rightarrow> (pending, c', w5))"

text \<open>
  The task \<open>consume\<close>. Its input is what the queue yields, in order: each batch with a
  flag telling whether another task requested shutdown while this one was suspended in
  \<open>log_queue.get()\<close>. When the queue yields nothing more the task stays suspended
  (\<open>Blocked\<close>); an exception ends it (\<open>Raised\<close>); leaving the loop is \<open>Terminated\<close>.
\<close>

datatype exit = Terminated | Blocked | Raised error

fun consume ::
  "config \<Rightarrow> externals \<Rightarrow> (log list \<times> bool) list \<Rightarrow> consumer \<Rightarrow> world
     \<Rightarrow> exit \<times> consumer \<times> world" where
  "consume cfg ext [] c w =
     (if is_running w then
        (Blocked, c, program_log (log_type c @ '' consumer: waiting for logs'') (Some INFO) w)
      else
        (Terminated, c, program_log (log_type c @ '' consumer: shutting down'') (Some INFO) w))"
| "consume cfg ext ((logs, shutdown_requested) # queue) c w =
     (if is_running w then
        (let w1 = program_log (log_type c @ '' consumer: waiting for logs'') (Some INFO) w;
             w2 = (if shutdown_requested then w1\<lparr>running := False\<rparr> else w1)
         in if \<not> is_running w2 then consume cfg ext queue c w2
            else
              (let w3 = program_log
                          (log_type c @ '' consumer: received '' @ str_nat (length logs)
                             @ '' logs from producer'') (Some INFO) w2
               in if logs \<noteq> [] then
                    (case process_batch cfg ext c logs w3 of
                       (Some e, c', w4) \<Rightarrow> (Raised e, c', w4)
                     | (None, c', w4) \<Rightarrow> consume cfg ext queue c' w4)
                  else
                    consume cfg ext queue c
                      (program_log (log_type c @ '' consumer: No logs to write'')
                         (Some INFO) w3)))
      else
        (Terminated, c, program_log (log_type c @ '' consumer: shutting down'') (Some INFO) w))"

section \<open>A sample configuration and sample surroundings\<close>

text \<open>Concrete values at which the theorems below are instantiated and evaluated.\<close>

definition sample_config :: config where
  "sample_config =
     \<lparr>CEF = ''CEF'', JSON = ''JSON'', AUTH = ''auth'', syslog_enabled = False,
      syslog_format = ''RFC5424'', checkpoint_dir = ''/var/ckpt'', api_offset = 1700000000\<rparr>"

text \<open>An offset extraction: the integer \<open>timestamp\<close> field of the record, else \<open>null\<close>.\<close>

definition sample_offset :: "log option \<Rightarrow> jval" where
  "sample_offset r =
     (case r of
        None \<Rightarrow> JNull
      | Some l \<Rightarrow> (case map_of l ''timestamp'' of Some (PInt t) \<Rightarrow> JInt t | _ \<Rightarrow> JNull))"

text \<open>Surroundings whose Writer behaves as \<open>wr\<close> says, by the number of the call.\<close>

definition sample_externals :: "(nat \<Rightarrow> error option) \<Rightarrow> externals" where
  "sample_externals wr =
     \<lparr>log_to_cef = (\<lambda>l labels. Inr ''CEF:0|Duo Security''),
      json_dumps_log = (\<lambda>l. ''{}''),
      fromtimestamp_utc = (\<lambda>v. Inl (OtherError ''TypeError'')),
      gethostname = ''siem-gw'',
      producer_get_log_offset = sample_offset,
      writer_write = (\<lambda>n payload. wr n)\<rparr>"

definition sample_record :: "int \<Rightarrow> log" where
  "sample_record t = [(''timestamp'', PInt t)]"

text \<open>A running process whose readable files are the listed ones; every path is writable.\<close>

definition sample_world :: "(string \<times> string) list \<Rightarrow> world" where
  "sample_world content =
     \<lparr>running = True, shutdown_reasons = [], log_lines = [], format_calls = [],
      write_calls = [], delivered = [], checkpoint_calls = [],
      fs = \<lparr>files = map_of content, unwritable = (\<lambda>path. False)\<rparr>\<rparr>"

text \<open>2024-01-02T03:04:05.678Z.\<close>

definition sample_time :: datetime where
  "sample_time =
     \<lparr>year = 2024, month = 1, day = 2, hour = 3, minute = 4, second = 5,
      microsecond = 678000, utcoffset = Some 0\<rparr>"

section \<open>Decimal text and the JSON round trip\<close>

lemma of_char_digit_char: "d < 10 \<Longrightarrow> (of_char (digit_char d) :: nat) = 48 + d"
  by (simp add: digit_char_def)

lemma is_digit_digit_char: "d < 10 \<Longrightarrow> is_digit (digit_char d)"
  by (simp add: is_digit_def of_char_digit_char)

lemma digit_char_not_ws: "d < 10 \<Longrightarrow> \<not> is_ws (digit_char d)"
proof
  assume d: "d < 10" and "is_ws (digit_char d)"
  then have "(of_char (digit_char d) :: nat) \<in> {32, 9, 10, 13}"
    by (auto simp: is_ws_def)
  with d show False by (simp add: of_char_digit_char)
qed

lemma is_digit_not_ws: "is_digit c \<Longrightarrow> \<not> is_ws c"
  by (auto simp: is_digit_def is_ws_def)

lemma is_digit_not_minus: "is_digit c \<Longrightarrow> c \<noteq> CHR ''-''"
  by (auto simp: is_digit_def)

lemma str_nat_nonempty: "str_nat n \<noteq> []"
  by (subst str_nat.simps) simp

lemma str_nat_digits: "list_all is_digit (str_nat n)"
proof (induction n rule: str_nat.induct)
  case (1 n)
  show ?case
  proof (cases "n < 10")
    case True
    then show ?thesis by (subst str_nat.simps) (simp add: is_digit_digit_char)
  next
    case False
    with 1 show ?thesis by (subst str_nat.simps) (simp add: is_digit_digit_char)
  qed
qed

lemma digits_val_snoc: "digits_val (ds @ [c]) = 10 * digits_val ds + (of_char c - 48)"
  by (simp add: digits_val_def)

lemma digits_val_str_nat: "digits_val (str_nat n) = n"
proof (induction n rule: str_nat.induct)
  case (1 n)
  show ?case
  proof (cases "n < 10")
    case True
    then show ?thesis
      by (subst str_nat.simps) (simp add: digits_val_def of_char_digit_char)
  next
    case False
    with 1 have "digits_val (str_nat (n div 10)) = n div 10" by simp
    with False show ?thesis
      by (subst str_nat.simps) (simp add: digits_val_snoc of_char_digit_char)
  qed
qed

lemma hd_str_nat_pos: "0 < n \<Longrightarrow> hd (str_nat n) \<noteq> CHR ''0''"
proof (induction n rule: str_nat.induct)
  case (1 n)
  show ?case
  proof (cases "n < 10")
    case True
    have "(of_char (digit_char n) :: nat) \<noteq> of_char CHR ''0''"
      using True 1(2) by (simp add: of_char_digit_char)
    then have "digit_char n \<noteq> CHR ''0''" by auto
    with True show ?thesis by (subst str_nat.simps) simp
  next
    case False
    with 1 have "hd (str_nat (n div 10)) \<noteq> CHR ''0''" by simp
    with False show ?thesis
      by (subst str_nat.simps) (simp add: str_nat_nonempty)
  qed
qed

lemma str_nat_0: "str_nat 0 = ''0''"
  by code_simp

lemma int_literal_str_nat: "int_literal (str_nat n)"
proof (cases "n = 0")
  case True
  then show ?thesis by (simp add: str_nat_0 int_literal_def)
next
  case False
  obtain c cs where cs: "str_nat n = c # cs"
    using str_nat_nonempty [of n] by (cases "str_nat n") auto
  from False have "hd (str_nat n) \<noteq> CHR ''0''" by (simp add: hd_str_nat_pos)
  moreover have "list_all is_digit (str_nat n)" by (rule str_nat_digits)
  ultimately show ?thesis using cs by (simp add: int_literal_def)
qed

lemma strip_ws_line:
  assumes "s \<noteq> []" and "\<not> is_ws (hd s)" and "\<not> is_ws (last s)"
  shows "strip_ws (s @ [CHR 0x0A]) = s"
proof -
  obtain c cs where s: "s = c # cs" using assms(1) by (cases s) auto
  with assms(2) have a: "dropWhile is_ws (s @ [CHR 0x0A]) = s @ [CHR 0x0A]" by simp
  have nl: "is_ws (CHR 0x0A)" by (simp add: is_ws_def)
  have "rev s \<noteq> []" using assms(1) by simp
  then obtain d ds where r: "rev s = d # ds" by (cases "rev s") auto
  have "hd (rev s) = last s" using assms(1) by (simp add: hd_rev)
  with r assms(3) have "\<not> is_ws d" by simp
  with r nl have "dropWhile is_ws (rev (s @ [CHR 0x0A])) = rev s" by simp
  with a show ?thesis by (simp add: strip_ws_def)
qed

lemma hd_str_nat_digit: "is_digit (hd (str_nat n))"
  using str_nat_digits [of n] str_nat_nonempty [of n] by (cases "str_nat n") auto

lemma last_str_nat_digit: "is_digit (last (str_nat n))"
  using str_nat_digits [of n] str_nat_nonempty [of n]
  by (simp add: list_all_iff)

lemma json_loads_int_line: "json_loads (str_int i @ [CHR 0x0A]) = Inr (JInt i)"
proof (cases "i < 0")
  case True
  let ?ds = "str_nat (nat (- i))"
  have s: "str_int i = CHR ''-'' # ?ds" using True by (simp add: str_int_def)
  have "\<not> is_ws (last (str_int i))"
    using s last_str_nat_digit [of "nat (- i)"] str_nat_nonempty [of "nat (- i)"]
    by (simp add: is_digit_not_ws)
  moreover have "\<not> is_ws (hd (str_int i))" using s by (simp add: is_ws_def)
  ultimately have t: "strip_ws (str_int i @ [CHR 0x0A]) = CHR ''-'' # ?ds"
    using s strip_ws_line [of "str_int i"] by simp
  have ne: "CHR ''-'' # ?ds \<noteq> ''null''" "CHR ''-'' # ?ds \<noteq> ''true''"
    "CHR ''-'' # ?ds \<noteq> ''false''" by simp_all
  show ?thesis
    using True ne
    by (simp add: json_loads_def t int_literal_str_nat digits_val_str_nat)
next
  case False
  let ?ds = "str_nat (nat i)"
  have s: "str_int i = ?ds" using False by (simp add: str_int_def)
  have h: "is_digit (hd ?ds)" by (rule hd_str_nat_digit)
  have t: "strip_ws (str_int i @ [CHR 0x0A]) = ?ds"
    using s strip_ws_line [of ?ds] h last_str_nat_digit [of "nat i"] str_nat_nonempty [of "nat i"]
    by (simp add: is_digit_not_ws)
  have "\<not> is_digit CHR ''n''" "\<not> is_digit CHR ''t''" "\<not> is_digit CHR ''f''"
    by (simp_all add: is_digit_def)
  with h have ne: "?ds \<noteq> ''null''" "?ds \<noteq> ''true''" "?ds \<noteq> ''false''"
    by auto
  have "hd ?ds \<noteq> CHR ''-''" using h by (rule is_digit_not_minus)
  then show ?thesis
    using False ne
    by (simp add: json_loads_def t int_literal_str_nat digits_val_str_nat)
qed

lemma json_round_trip: "json_loads (json_dumps v @ [CHR 0x0A]) = Inr v"
proof (cases v)
  case JNull
  have "json_loads (''null'' @ [CHR 0x0A]) = Inr JNull" by code_simp
  with JNull show ?thesis by (simp add: json_dumps_def)
next
  case (JBool b)
  have "json_loads (''true'' @ [CHR 0x0A]) = Inr (JBool True)" by code_simp
  moreover have "json_loads (''false'' @ [CHR 0x0A]) = Inr (JBool False)" by code_simp
  ultimately show ?thesis using JBool by (simp add: json_dumps_def)
next
  case (JInt i)
  then show ?thesis by (simp add: json_dumps_def json_loads_int_line)
qed

section \<open>The syslog header\<close>

text \<open>
  C8. For a format that reads \<open>RFC5424\<close> in upper case, a timestamp in UTC and priority
  38, \<open>get_syslog_header\<close> returns \<open><38>1\<close> with no space between PRI and VERSION, a
  space, the date and time as \<open>YYYY-MM-DDTHH:MM:SS.mmm+00:00\<close> with the milliseconds
  cut from the microseconds, a space, and the host name.
\<close>

theorem rfc5424_header_utc:
  assumes "upper format = ''RFC5424''" and "utcoffset t = Some 0"
  shows "get_syslog_header host format t 38 =
           Inr (''<38>1 '' @ zpad 4 (year t) @ ''-'' @ zpad 2 (month t) @ ''-'' @ zpad 2 (day t)
                @ ''T'' @ zpad 2 (hour t) @ '':'' @ zpad 2 (minute t) @ '':''
                @ zpad 2 (second t) @ ''.'' @ zpad 3 (microsecond t div 1000) @ ''+00:00''
                @ '' '' @ host)"
proof -
  have p: "str_int 38 = ''38''" by code_simp
  have v: "str_int SYSLOG_VERSION = ''1''" by code_simp
  have z: "format_offset (Some 0) = ''+00:00''" by code_simp
  show ?thesis
    using assms by (simp add: get_syslog_header_def p v z isoformat_ms_def)
qed

theorem rfc5424_header_utc_witness:
  "upper ''RFC5424'' = ''RFC5424'' \<and> utcoffset sample_time = Some 0 \<and>
   get_syslog_header ''siem-gw'' ''RFC5424'' sample_time 38 =
     Inr ''<38>1 2024-01-02T03:04:05.678+00:00 siem-gw''"
proof -
  have u: "upper ''RFC5424'' = ''RFC5424''" by code_simp
  have o: "utcoffset sample_time = Some 0" by (simp add: sample_time_def)
  have f: "year sample_time = 2024" "month sample_time = 1" "day sample_time = 2"
    "hour sample_time = 3" "minute sample_time = 4" "second sample_time = 5"
    "microsecond sample_time div 1000 = 678"
    by (simp_all add: sample_time_def)
  have z: "zpad 4 2024 = ''2024''" "zpad 2 1 = ''01''" "zpad 2 2 = ''02''" "zpad 2 3 = ''03''"
    "zpad 2 4 = ''04''" "zpad 2 5 = ''05''" "zpad 3 678 = ''678''"
    by code_simp+
  have z1: "zpad 2 (Suc 0) = ''01''" by code_simp
  show ?thesis
    using rfc5424_header_utc [OF u o, of "''siem-gw''"] u o by (simp add: f z z1)
qed


section \<open>Reading and writing checkpoints\<close>

lemma read_checkpoint_file_missing:
  "files f path = None \<Longrightarrow> read_checkpoint_file f path = Inl OSError"
  by (simp add: read_checkpoint_file_def open_read_def)

lemma read_checkpoint_file_present:
  "files f path = Some text \<Longrightarrow> read_checkpoint_file f path = json_loads text"
  by (simp add: read_checkpoint_file_def open_read_def)

lemma json_loads_not_OSError: "json_loads text \<noteq> Inl OSError"
  by (simp add: json_loads_def Let_def)

text \<open>
  C9. When recovery is off or the checkpoint file cannot be opened, \<open>get_log_offset\<close>
  returns the configured default, multiplied by 1000 for the stream type \<open>Config.AUTH\<close>
  and as it is for every other stream type. An offset decoded from the checkpoint file
  is returned as read, also for \<open>Config.AUTH\<close>.
\<close>

theorem get_log_offset_scaling:
  "(\<not> recover \<or> files (fs w) (read_checkpoint_path dir lt cid) = None \<longrightarrow>
      fst (get_log_offset cfg lt recover dir cid w) =
        Inr (JInt (if lt = AUTH cfg then api_offset cfg * 1000 else api_offset cfg)))
   \<and> (recover \<and> files (fs w) (read_checkpoint_path dir lt cid) = Some text
        \<and> json_loads text = Inr v \<longrightarrow>
      fst (get_log_offset cfg lt recover dir cid w) = Inr v)"
  by (auto simp: get_log_offset_def Let_def read_checkpoint_file_missing
        read_checkpoint_file_present)

theorem get_log_offset_scaling_witness:
  "fst (get_log_offset sample_config ''auth'' True ''/var/ckpt'' None (sample_world [])) =
     Inr (JInt 1700000000000)
   \<and> fst (get_log_offset sample_config ''telephony'' True ''/var/ckpt'' None (sample_world [])) =
     Inr (JInt 1700000000)
   \<and> fst (get_log_offset sample_config ''auth'' False ''/var/ckpt'' None
            (sample_world [(''/var/ckpt/auth_checkpoint_data.txt'', ''12345'')])) =
     Inr (JInt 1700000000000)
   \<and> fst (get_log_offset sample_config ''auth'' True ''/var/ckpt'' None
            (sample_world [(''/var/ckpt/auth_checkpoint_data.txt'', ''12345'')])) =
     Inr (JInt 12345)"
proof -
  have p: "read_checkpoint_path ''/var/ckpt'' ''auth'' None = ''/var/ckpt/auth_checkpoint_data.txt''"
    "read_checkpoint_path ''/var/ckpt'' ''telephony'' None = ''/var/ckpt/telephony_checkpoint_data.txt''"
    by code_simp+
  have j: "json_loads ''12345'' = Inr (JInt 12345)" by code_simp
  have a: "AUTH sample_config = ''auth''" "api_offset sample_config = 1700000000"
    by (simp_all add: sample_config_def)
  let ?w = "sample_world [(''/var/ckpt/auth_checkpoint_data.txt'', ''12345'')]"
  have m: "files (fs (sample_world [])) (read_checkpoint_path ''/var/ckpt'' ''auth'' None) = None"
    "files (fs (sample_world [])) (read_checkpoint_path ''/var/ckpt'' ''telephony'' None) = None"
    by (simp_all add: sample_world_def)
  have s: "files (fs ?w) (read_checkpoint_path ''/var/ckpt'' ''auth'' None) = Some ''12345''"
    by (simp add: sample_world_def p)
  show ?thesis
    using get_log_offset_scaling [of True "sample_world []" "''/var/ckpt''" "''auth''" None sample_config]
      get_log_offset_scaling [of True "sample_world []" "''/var/ckpt''" "''telephony''" None sample_config]
      get_log_offset_scaling [of False ?w "''/var/ckpt''" "''auth''" None sample_config]
      get_log_offset_scaling [of True ?w "''/var/ckpt''" "''auth''" None sample_config "''12345''" "JInt 12345"]
      m s j
    by (simp add: a)
qed

text \<open>
  C4, as the claim states it, fails: a checkpoint file that exists and is empty (what a
  crash between \<open>open(path, 'w')\<close> and the write leaves behind) makes \<open>json.loads\<close>
  raise, the \<open>except OSError\<close> clause does not catch that, and the call raises.
\<close>

theorem empty_checkpoint_file_raises:
  "fst (get_log_offset sample_config ''auth'' True ''/var/ckpt'' None
          (sample_world [(''/var/ckpt/auth_checkpoint_data.txt'', [])])) =
     Inl JSONDecodeError"
  by code_simp

text \<open>
  C4, amended. With recovery on, a checkpoint file that cannot be opened never makes
  \<open>get_log_offset\<close> raise: the call returns the configured default (times 1000 for
  \<open>Config.AUTH\<close>) and logs the fallback message. A file that opens but whose text
  \<open>json.loads\<close> rejects makes the call raise that error, and nothing is logged.
\<close>

theorem get_log_offset_missing_file:
  "(files (fs w) (read_checkpoint_path dir lt cid) = None \<longrightarrow>
      get_log_offset cfg lt True dir cid w =
        (Inr (JInt (if lt = AUTH cfg then api_offset cfg * 1000 else api_offset cfg)),
         program_log (''Could not read checkpoint file for '' @ lt
           @ '' logs, consuming logs from {log_offset} timestamp'') None w))
   \<and> (files (fs w) (read_checkpoint_path dir lt cid) = Some body \<and> json_loads body = Inl e \<longrightarrow>
      get_log_offset cfg lt True dir cid w = (Inl e, w))"
proof (intro conjI impI)
  assume "files (fs w) (read_checkpoint_path dir lt cid) = None"
  then show "get_log_offset cfg lt True dir cid w =
        (Inr (JInt (if lt = AUTH cfg then api_offset cfg * 1000 else api_offset cfg)),
         program_log (''Could not read checkpoint file for '' @ lt
           @ '' logs, consuming logs from {log_offset} timestamp'') None w)"
    by (simp add: get_log_offset_def Let_def read_checkpoint_file_missing)
next
  assume a: "files (fs w) (read_checkpoint_path dir lt cid) = Some body \<and> json_loads body = Inl e"
  then have "e \<noteq> OSError" using json_loads_not_OSError [of body] by auto
  with a show "get_log_offset cfg lt True dir cid w = (Inl e, w)"
    by (cases e) (simp_all add: get_log_offset_def Let_def read_checkpoint_file_present)
qed

theorem get_log_offset_missing_file_witness:
  "fst (get_log_offset sample_config ''telephony'' True ''/var/ckpt'' (Some ''acct7'')
          (sample_world [])) = Inr (JInt 1700000000)
   \<and> log_lines (snd (get_log_offset sample_config ''telephony'' True ''/var/ckpt''
          (Some ''acct7'') (sample_world []))) =
       [(''Could not read checkpoint file for telephony logs, consuming logs from {log_offset} timestamp'', None)]
   \<and> fst (get_log_offset sample_config ''telephony'' True ''/var/ckpt'' (Some ''acct7'')
          (sample_world [(''/var/ckpt/telephony_checkpoint_data_acct7.txt'', ''12,'')])) =
       Inl JSONDecodeError"
proof -
  have p: "read_checkpoint_path ''/var/ckpt'' ''telephony'' (Some ''acct7'') =
             ''/var/ckpt/telephony_checkpoint_data_acct7.txt''"
    by code_simp
  have j: "json_loads ''12,'' = Inl JSONDecodeError" by code_simp
  have a: "AUTH sample_config = ''auth''" "api_offset sample_config = 1700000000"
    by (simp_all add: sample_config_def)
  let ?w = "sample_world [(''/var/ckpt/telephony_checkpoint_data_acct7.txt'', ''12,'')]"
  have m: "files (fs (sample_world []))
             (read_checkpoint_path ''/var/ckpt'' ''telephony'' (Some ''acct7'')) = None"
    by (simp add: sample_world_def)
  have s: "files (fs ?w) (read_checkpoint_path ''/var/ckpt'' ''telephony'' (Some ''acct7'')) =
             Some ''12,''"
    by (simp add: sample_world_def p)
  have l: "log_lines (sample_world []) = []" by (simp add: sample_world_def)
  show ?thesis
    using get_log_offset_missing_file
            [where w = "sample_world []" and dir = "''/var/ckpt''" and lt = "''telephony''"
               and cid = "Some ''acct7''" and cfg = sample_config]
      get_log_offset_missing_file
            [where w = ?w and dir = "''/var/ckpt''" and lt = "''telephony''"
               and cid = "Some ''acct7''" and cfg = sample_config and body = "''12,''"
               and e = JSONDecodeError]
      m s j
    by (simp add: a l program_log_def)
qed

end
